theory Spec2Isabelle
  imports
    Main
    "HOL-Library.Sublist"
    "HOL-Library.Multiset"
    "HOL-Library.Product_Lexorder"
begin

section \<open>Python values\<close>

text \<open>
  The script history.py handles objects delivered by the Telegram client library. Their
  attributes are dynamically typed: an attribute holds \<^verbatim>\<open>None\<close>, an integer, a
  string, or some other object. \<open>PObj s\<close> is an object of any other class whose
  \<^verbatim>\<open>str()\<close> is \<open>s\<close>; it is truthy, it is not subscriptable and
  \<^verbatim>\<open>json.dumps\<close> rejects it. Characters are HOL's 8-bit \<open>char\<close>, read as code
  points below 256.
\<close>

datatype pyval = PNone | PInt int | PStr string | PObj string

datatype error =
  IndexError | TypeError | ValueError | UnboundLocalError | AttributeError | MarkupError

text \<open>Truthiness, as tested by \<^verbatim>\<open>if x\<close> and by \<^verbatim>\<open>and\<close> / \<^verbatim>\<open>not\<close>.\<close>

fun truthy :: "pyval \<Rightarrow> bool" where
  "truthy PNone = False"
| "truthy (PInt i) = (i \<noteq> 0)"
| "truthy (PStr s) = (s \<noteq> [])"
| "truthy (PObj s) = True"

definition digit :: "nat \<Rightarrow> char" where
  "digit n = ''0123456789'' ! (n mod 10)"

fun str_nat :: "nat \<Rightarrow> string" where
  "str_nat n = (if n < 10 then [digit n] else str_nat (n div 10) @ [digit n])"

declare str_nat.simps [simp del]

definition str_int :: "int \<Rightarrow> string" where
  "str_int i = (if i < 0 then CHR ''-'' # str_nat (nat (- i)) else str_nat (nat i))"

text \<open>The builtin \<^verbatim>\<open>str()\<close>.\<close>

fun str_of :: "pyval \<Rightarrow> string" where
  "str_of PNone = ''None''"
| "str_of (PInt i) = str_int i"
| "str_of (PStr s) = s"
| "str_of (PObj s) = s"

text \<open>The operator \<^verbatim>\<open>q in s\<close> on two strings: \<open>q\<close> occurs in \<open>s\<close> as a substring.\<close>

fun str_contains :: "string \<Rightarrow> string \<Rightarrow> bool" where
  "str_contains q [] = (q = [])"
| "str_contains q (c # cs) = (prefix q (c # cs) \<or> str_contains q cs)"

text \<open>
  Indexing \<^verbatim>\<open>xs[i]\<close>: a negative index counts from the end, an index out of
  range raises IndexError.
\<close>

definition getitem :: "'a list \<Rightarrow> int \<Rightarrow> error + 'a" where
  "getitem xs i =
     (if 0 \<le> i \<and> i < int (length xs) then Inr (xs ! nat i)
      else if i < 0 \<and> - int (length xs) \<le> i then Inr (xs ! nat (int (length xs) + i))
      else Inl IndexError)"

text \<open>
  The slice \<^verbatim>\<open>xs[:n]\<close>: a negative bound counts from the end, and a bound beyond
  either end is clipped.
\<close>

definition slice_to :: "'a list \<Rightarrow> int \<Rightarrow> 'a list" where
  "slice_to xs n = (if 0 \<le> n then take (nat n) xs else take (length xs - nat (- n)) xs)"

text \<open>\<^verbatim>\<open>str.replace('\n', ' ')\<close> and \<^verbatim>\<open>str.strip()\<close>.\<close>

definition replace_newlines :: "string \<Rightarrow> string" where
  "replace_newlines s = map (\<lambda>c. if c = CHR 0x0A then CHR '' '' else c) s"

definition isspace :: "char \<Rightarrow> bool" where
  "isspace c \<longleftrightarrow> c \<in> set [CHR 0x09, CHR 0x0A, CHR 0x0B, CHR 0x0C, CHR 0x0D,
     CHR 0x1C, CHR 0x1D, CHR 0x1E, CHR 0x1F, CHR 0x20, CHR 0x85, CHR 0xA0]"

definition strip :: "string \<Rightarrow> string" where
  "strip s = rev (dropWhile isspace (rev (dropWhile isspace s)))"

section \<open>Dates\<close>

text \<open>
  A message's \<^verbatim>\<open>date\<close> is a datetime; all dates of one fetch carry the same time
  zone, so two of them compare by their fields, year first. The fields are year, month,
  day, hour, minute and second, and the order is the lexicographic one.
\<close>

type_synonym datetime = "nat \<times> nat \<times> nat \<times> nat \<times> nat \<times> nat"

definition pad2 :: "nat \<Rightarrow> string" where
  "pad2 n = [digit (n div 10), digit n]"

definition pad4 :: "nat \<Rightarrow> string" where
  "pad4 n = [digit (n div 1000), digit (n div 100), digit (n div 10), digit n]"

text \<open>\<^verbatim>\<open>date.strftime('%Y-%m-%d %H:%M:%S')\<close>, for years of four digits.\<close>

fun strftime :: "datetime \<Rightarrow> string" where
  "strftime (Y, M, D, h, m, s) =
     pad4 Y @ ''-'' @ pad2 M @ ''-'' @ pad2 D @ '' '' @ pad2 h @ '':'' @ pad2 m @ '':'' @ pad2 s"

section \<open>Objects of the client library\<close>

text \<open>
  \<^verbatim>\<open>message.sender\<close> is an instance of \<^verbatim>\<open>telethon.tl.types.User\<close>, of
  \<^verbatim>\<open>telethon.tl.types.Channel\<close>, or anything else (another entity class, or
  \<^verbatim>\<open>None\<close>). For the last shape the model keeps the one thing the script does with
  it: reading the attribute \<^verbatim>\<open>username\<close>, which the object may lack.
\<close>

datatype sender =
    User (first_name: pyval) (last_name: pyval) (username: pyval)
  | Channel (title: pyval) (username: pyval)
  | Other "pyval option"

record raw_message =
  msg_id :: pyval
  date :: datetime
  chat_id :: pyval
  voice :: pyval
  sender :: sender
  sender_id :: pyval
  message :: pyval
  views :: pyval
  reply_to_msg_id :: pyval
  msg_text :: pyval

record dialog =
  name :: string
  dialog_id :: pyval

text \<open>
  The remote service as the script sees it through the client: the dialogs of the
  account, \<^verbatim>\<open>get_messages(chat_id, limit=n)\<close> and
  \<^verbatim>\<open>get_messages(chat_id, limit=n, offset_date=d, reverse=True)\<close>. Nothing is
  assumed about what the service returns.
\<close>

record client =
  get_dialogs :: "dialog list"
  get_messages :: "pyval \<Rightarrow> int \<Rightarrow> raw_message list"
  get_messages_reverse :: "pyval \<Rightarrow> int \<Rightarrow> datetime \<Rightarrow> raw_message list"

text \<open>
  The parsed command line. \<open>offset_date\<close> is the value of
  \<^verbatim>\<open>datetime.strptime(args.offset_date, '%Y-%m-%d')\<close>, \<open>None\<close> when the text is
  not a date and strptime raises ValueError.
\<close>

record args =
  chat_name :: string
  limit :: int
  offset_date :: "datetime option"

section \<open>Chat resolution\<close>

definition list_all_chats :: "client \<Rightarrow> dialog list" where
  "list_all_chats cl = get_dialogs cl"

definition get_messages_by_chat_id :: "client \<Rightarrow> pyval \<Rightarrow> int \<Rightarrow> raw_message list" where
  "get_messages_by_chat_id cl cid lim = get_messages cl cid lim"

definition found_chats :: "client \<Rightarrow> string \<Rightarrow> dialog list" where
  "found_chats cl q = filter (\<lambda>chat. str_contains q (name chat)) (list_all_chats cl)"

text \<open>
  The preview of a candidate:
  \<^verbatim>\<open>last_message[0].text[:20].replace('\n', ' ').strip() if last_message else "No messages"\<close>.
  Slicing a \<^verbatim>\<open>text\<close> that is not a string raises TypeError.
\<close>

definition last_message_text :: "raw_message list \<Rightarrow> error + string" where
  "last_message_text last_message =
     (case last_message of
        [] \<Rightarrow> Inr ''No messages''
      | m # _ \<Rightarrow>
          (case msg_text m of
             PStr s \<Rightarrow> Inr (strip (replace_newlines (take 20 s)))
           | _ \<Rightarrow> Inl TypeError))"

text \<open>
  \<^verbatim>\<open>print\<close> is \<^verbatim>\<open>rich.print\<close> (line 31): it parses the console markup of
  its text and raises MarkupError on a tag it cannot match, for instance a closing tag in a
  chat name. The parser belongs to the library: \<open>markup_ok\<close> says which texts it
  accepts. The candidates are handled one after the other: the preview of a candidate is
  made and its line printed before the next candidate is looked at. The result holds the
  lines printed for the candidates from position \<open>i\<close> on.
\<close>

fun print_choices ::
  "(string \<Rightarrow> bool) \<Rightarrow> client \<Rightarrow> nat \<Rightarrow> dialog list \<Rightarrow> error + string list" where
  "print_choices markup_ok cl i [] = Inr []"
| "print_choices markup_ok cl i (chat # chats) =
     (case last_message_text (get_messages_by_chat_id cl (dialog_id chat) 1) of
        Inl e \<Rightarrow> Inl e
      | Inr t \<Rightarrow>
          (let line = ''[bold]'' @ str_nat (i + 1) @ ''. '' @ name chat
                      @ ''[/bold] - Last message: '' @ t
           in if markup_ok line then
                (case print_choices markup_ok cl (Suc i) chats of
                   Inl e \<Rightarrow> Inl e
                 | Inr ls \<Rightarrow> Inr (line # ls))
              else Inl MarkupError))"

text \<open>
  \<open>typed\<close> is the value of \<^verbatim>\<open>int(input(...))\<close>: \<open>None\<close> when the line typed is
  not an integer and \<^verbatim>\<open>int\<close> raises ValueError. The heading printed at line 144
  holds no bracket, hence no tag, and is always accepted.
\<close>

definition find_chat_by_name ::
  "(string \<Rightarrow> bool) \<Rightarrow> client \<Rightarrow> int option \<Rightarrow> string \<Rightarrow> error + dialog" where
  "find_chat_by_name markup_ok cl typed q =
     (let found = found_chats cl q in
      if length found > 1 then
        (case print_choices markup_ok cl 0 found of
           Inl e \<Rightarrow> Inl e
         | Inr ls \<Rightarrow>
             (case typed of
                None \<Rightarrow> Inl ValueError
              | Some choice \<Rightarrow> getitem found (choice - 1)))
      else getitem found 0)"

section \<open>History export\<close>

definition get_channel_history :: "args \<Rightarrow> client \<Rightarrow> pyval \<Rightarrow> error + raw_message list" where
  "get_channel_history a cl channel_id =
     (case offset_date a of
        None \<Rightarrow> Inl ValueError
      | Some d \<Rightarrow> Inr (get_messages_reverse cl channel_id (limit a) d))"

text \<open>
  The local variables of \<^verbatim>\<open>main\<close> that live across iterations of its loop:
  \<open>sender_type\<close> and \<open>sender_name\<close> are unbound (\<open>None\<close>) until a branch binds them
  and keep their value afterwards; \<open>messages\<close> is the list of accepted records.
\<close>

type_synonym pydict = "(string \<times> pyval) list"

record loop_vars =
  sender_type :: "string option"
  sender_name :: "string option"
  messages :: "pydict list"

text \<open>
  The \<^verbatim>\<open>if isinstance ... elif isinstance ...\<close> chain of the loop body. It returns
  the variables and whether the iteration goes on (\<open>False\<close>: \<^verbatim>\<open>continue\<close>). The
  chain has no \<^verbatim>\<open>else\<close>: any other sender leaves both variables as they were.
\<close>

fun sender_branch :: "loop_vars \<Rightarrow> sender \<Rightarrow> loop_vars \<times> bool" where
  "sender_branch vars (User fname lname u) =
     (let vars = vars\<lparr>sender_type := Some ''user''\<rparr> in
      if truthy fname \<and> truthy lname then
        (vars\<lparr>sender_name := Some (str_of fname @ '' '' @ str_of lname)\<rparr>, True)
      else if truthy fname \<and> \<not> truthy lname then
        (vars\<lparr>sender_name := Some (str_of fname)\<rparr>, True)
      else if \<not> truthy fname \<and> truthy lname then
        (vars\<lparr>sender_name := Some (str_of lname)\<rparr>, True)
      else (vars, False))"
| "sender_branch vars (Channel t u) =
     (vars\<lparr>sender_type := Some ''channel'', sender_name := Some (str_of t)\<rparr>, True)"
| "sender_branch vars (Other a) = (vars, True)"

text \<open>The attribute read \<^verbatim>\<open>message.sender.username\<close>.\<close>

fun getattr_username :: "sender \<Rightarrow> error + pyval" where
  "getattr_username (User fname lname u) = Inr u"
| "getattr_username (Channel t u) = Inr u"
| "getattr_username (Other None) = Inl AttributeError"
| "getattr_username (Other (Some u)) = Inr u"

definition message_type_of :: "raw_message \<Rightarrow> string" where
  "message_type_of m = (if truthy (voice m) then ''voice'' else ''text'')"

text \<open>The dictionary display of the loop body; a dictionary keeps its keys in insertion order.\<close>

definition formatted_message ::
  "dialog \<Rightarrow> raw_message \<Rightarrow> string \<Rightarrow> string \<Rightarrow> string \<Rightarrow> string \<Rightarrow> pyval \<Rightarrow> pydict" where
  "formatted_message chat m message_date message_type stype sname uname =
     [(''message_id'', msg_id m),
      (''chat_name'', PStr (name chat)),
      (''date'', PStr message_date),
      (''chat_id'', chat_id m),
      (''message_type'', PStr message_type),
      (''sender_type'', PStr stype),
      (''sender_name'', PStr sname),
      (''sender_username'', uname),
      (''sender_id'', sender_id m),
      (''message'', PStr (str_of (message m))),
      (''views'', views m),
      (''reply_to_msg_id'', reply_to_msg_id m)]"

text \<open>\<^verbatim>\<open>json.dumps\<close> of a dictionary raises TypeError on a value it cannot serialise.\<close>

fun json_value_ok :: "pyval \<Rightarrow> bool" where
  "json_value_ok (PObj s) = False"
| "json_value_ok v = True"

definition json_dumps_ok :: "pydict \<Rightarrow> bool" where
  "json_dumps_ok d = list_all (\<lambda>kv. json_value_ok (snd kv)) d"

text \<open>
  One iteration of the loop of \<^verbatim>\<open>main\<close>. The values of the dictionary display are
  evaluated in order, so an unbound \<open>sender_type\<close> or \<open>sender_name\<close> raises
  UnboundLocalError before \<^verbatim>\<open>message.sender.username\<close> is read. The only
  exception the body catches is the one of \<^verbatim>\<open>json.dumps\<close>.
\<close>

definition loop_body :: "dialog \<Rightarrow> loop_vars \<Rightarrow> raw_message \<Rightarrow> error + loop_vars" where
  "loop_body chat vars m =
     (case sender_branch vars (sender m) of
        (vars1, False) \<Rightarrow> Inr vars1
      | (vars1, True) \<Rightarrow>
          (let message_type = message_type_of m;
               message_date = strftime (date m)
           in case sender_type vars1 of
                None \<Rightarrow> Inl UnboundLocalError
              | Some stype \<Rightarrow>
                  (case sender_name vars1 of
                     None \<Rightarrow> Inl UnboundLocalError
                   | Some sname \<Rightarrow>
                       (case getattr_username (sender m) of
                          Inl e \<Rightarrow> Inl e
                        | Inr uname \<Rightarrow>
                            (let fm = formatted_message chat m message_date message_type
                                        stype sname uname
                             in if json_dumps_ok fm
                                then Inr (vars1\<lparr>messages := messages vars1 @ [fm]\<rparr>)
                                else Inr vars1)))))"

fun main_loop :: "dialog \<Rightarrow> loop_vars \<Rightarrow> raw_message list \<Rightarrow> error + loop_vars" where
  "main_loop chat vars [] = Inr vars"
| "main_loop chat vars (m # ms) =
     (case loop_body chat vars m of
        Inl e \<Rightarrow> Inl e
      | Inr vars1 \<Rightarrow> main_loop chat vars1 ms)"

definition initial_vars :: loop_vars where
  "initial_vars = \<lparr>sender_type = None, sender_name = None, messages = []\<rparr>"

text \<open>
  Lines 184 to 235 of \<^verbatim>\<open>main\<close>: the stable sort by date (Python's
  \<^verbatim>\<open>sorted\<close> is stable), the slice to the limit, and the loop. The result is the
  list \<open>messages\<close>, which the script then writes out with \<^verbatim>\<open>json.dumps\<close>.
\<close>

definition export_history :: "dialog \<Rightarrow> int \<Rightarrow> raw_message list \<Rightarrow> error + pydict list" where
  "export_history chat lim fetched =
     (let history = sort_key date fetched in
      case main_loop chat initial_vars (slice_to history lim) of
        Inl e \<Rightarrow> Inl e
      | Inr vars \<Rightarrow> Inr (messages vars))"

definition main ::
  "(string \<Rightarrow> bool) \<Rightarrow> args \<Rightarrow> client \<Rightarrow> int option \<Rightarrow> error + pydict list" where
  "main markup_ok a cl typed =
     (case find_chat_by_name markup_ok cl typed (chat_name a) of
        Inl e \<Rightarrow> Inl e
      | Inr chat \<Rightarrow>
          (case get_channel_history a cl (dialog_id chat) of
             Inl e \<Rightarrow> Inl e
           | Inr fetched \<Rightarrow> export_history chat (limit a) fetched))"

section \<open>The file written\<close>

text \<open>
  \<^verbatim>\<open>json.dumps(messages, indent=4)\<close>, the text that lines 240 to 245 write to the
  file. A string is quoted, with a backslash escape for the quote, the backslash and the
  control characters that have one, and \<^verbatim>\<open>\u00xx\<close> for every other character
  outside the printable ASCII range. The items of the list are indented by four and the
  items of a dictionary by eight blanks, one on a line.
\<close>

definition hexdigit :: "nat \<Rightarrow> char" where
  "hexdigit n = ''0123456789abcdef'' ! (n mod 16)"

definition json_char :: "char \<Rightarrow> string" where
  "json_char c =
     (if c = CHR 0x22 then [CHR 0x5C, CHR 0x22]
      else if c = CHR 0x5C then [CHR 0x5C, CHR 0x5C]
      else if c = CHR 0x0A then [CHR 0x5C, CHR ''n'']
      else if c = CHR 0x0D then [CHR 0x5C, CHR ''r'']
      else if c = CHR 0x09 then [CHR 0x5C, CHR ''t'']
      else if c = CHR 0x08 then [CHR 0x5C, CHR ''b'']
      else if c = CHR 0x0C then [CHR 0x5C, CHR ''f'']
      else if (of_char c :: nat) < 0x20 \<or> 0x7E < (of_char c :: nat) then
        [CHR 0x5C, CHR ''u'', CHR ''0'', CHR ''0'',
         hexdigit (of_char c div 16), hexdigit (of_char c)]
      else [c])"

definition json_string :: "string \<Rightarrow> string" where
  "json_string s = CHR 0x22 # concat (map json_char s) @ [CHR 0x22]"

text \<open>An object that json cannot encode never gets here: see \<open>json_dumps\<close> below.\<close>

fun json_value :: "pyval \<Rightarrow> string" where
  "json_value PNone = ''null''"
| "json_value (PInt i) = str_int i"
| "json_value (PStr s) = json_string s"
| "json_value (PObj s) = []"

fun join :: "string \<Rightarrow> string list \<Rightarrow> string" where
  "join sep [] = []"
| "join sep [x] = x"
| "join sep (x # y # ys) = x @ sep @ join sep (y # ys)"

definition json_dict :: "pydict \<Rightarrow> string" where
  "json_dict d =
     (if d = [] then ''{}''
      else ''{'' @ [CHR 0x0A] @ replicate 8 CHR '' ''
           @ join ('','' @ [CHR 0x0A] @ replicate 8 CHR '' '')
               (map (\<lambda>kv. json_string (fst kv) @ '': '' @ json_value (snd kv)) d)
           @ [CHR 0x0A] @ replicate 4 CHR '' '' @ ''}'')"

definition json_list :: "pydict list \<Rightarrow> string" where
  "json_list ds =
     (if ds = [] then ''[]''
      else ''['' @ [CHR 0x0A] @ replicate 4 CHR '' ''
           @ join ('','' @ [CHR 0x0A] @ replicate 4 CHR '' '') (map json_dict ds)
           @ [CHR 0x0A] @ '']'')"

definition json_dumps :: "pydict list \<Rightarrow> error + string" where
  "json_dumps ds = (if list_all json_dumps_ok ds then Inr (json_list ds) else Inl TypeError)"

text \<open>The variable \<^verbatim>\<open>json_messages\<close> of \<^verbatim>\<open>main\<close>: the content of the file.\<close>

definition json_messages ::
  "(string \<Rightarrow> bool) \<Rightarrow> args \<Rightarrow> client \<Rightarrow> int option \<Rightarrow> error + string" where
  "json_messages markup_ok a cl typed =
     (case main markup_ok a cl typed of
        Inl e \<Rightarrow> Inl e
      | Inr doc \<Rightarrow> json_dumps doc)"

section \<open>Notions used in the statements\<close>

text \<open>
  A sender of the person variant that has neither a first nor a last name: both attributes
  are falsy (\<^verbatim>\<open>None\<close> or the empty string).
\<close>

fun no_name :: "sender \<Rightarrow> bool" where
  "no_name (User fname lname u) = (\<not> truthy fname \<and> \<not> truthy lname)"
| "no_name s = False"

text \<open>
  \<open>record_from chat m r\<close>: the dictionary \<open>r\<close> is the one the loop body builds for the
  message \<open>m\<close>, for some values of the sender variables, it passed
  \<^verbatim>\<open>json.dumps\<close>, and the sender of \<open>m\<close> is not a person without a name.
\<close>

definition record_from :: "dialog \<Rightarrow> raw_message \<Rightarrow> pydict \<Rightarrow> bool" where
  "record_from chat m r \<longleftrightarrow>
     (\<exists>stype sname uname.
        r = formatted_message chat m (strftime (date m)) (message_type_of m) stype sname uname)
     \<and> json_dumps_ok r \<and> \<not> no_name (sender m)"

text \<open>
  \<open>serialisable m\<close>: \<^verbatim>\<open>json.dumps\<close> accepts the dictionary of \<open>m\<close>. The values
  that pass from the message into the dictionary as they are must be ones that json can
  encode; the other values of the dictionary are strings. \<open>has_record m\<close>: a run that
  comes to its end appends a record for \<open>m\<close>.
\<close>

definition serialisable :: "raw_message \<Rightarrow> bool" where
  "serialisable m \<longleftrightarrow>
     json_value_ok (msg_id m) \<and> json_value_ok (chat_id m) \<and>
     (case getattr_username (sender m) of Inl e \<Rightarrow> False | Inr uname \<Rightarrow> json_value_ok uname) \<and>
     json_value_ok (sender_id m) \<and> json_value_ok (views m) \<and>
     json_value_ok (reply_to_msg_id m)"

definition has_record :: "raw_message \<Rightarrow> bool" where
  "has_record m \<longleftrightarrow> \<not> no_name (sender m) \<and> serialisable m"

section \<open>A sample account\<close>

text \<open>
  Two dialogs, of which one matches the query \<^verbatim>\<open>News\<close>. The service answers the
  history request with five messages out of order: a voice note with an empty body sent by
  a person who has a first name only, two messages with the same timestamp of which the
  second comes from an account without a name, and one message more than the limit of four.
\<close>

definition newsco :: sender where
  "newsco = Channel (PStr ''NewsCo'') (PStr ''newsco'')"

definition ada :: sender where
  "ada = User (PStr ''Ada'') PNone (PStr ''ada'')"

definition deleted_account :: sender where
  "deleted_account = User PNone (PStr []) PNone"

definition post :: "int \<Rightarrow> datetime \<Rightarrow> sender \<Rightarrow> pyval \<Rightarrow> pyval \<Rightarrow> raw_message" where
  "post i d s body v =
     \<lparr>msg_id = PInt i, date = d, chat_id = PInt (- 1001), voice = v, sender = s,
      sender_id = PInt 42, message = body, views = PInt 7, reply_to_msg_id = PNone,
      msg_text = body\<rparr>"

definition news_chat :: dialog where
  "news_chat = \<lparr>name = ''NewsCo'', dialog_id = PInt (- 1001)\<rparr>"

definition example_fetched :: "raw_message list" where
  "example_fetched =
     [post 13 (2021, 1, 4, 8, 0, 0) ada (PStr []) (PObj ''Document''),
      post 11 (2021, 1, 3, 9, 30, 0) newsco (PStr ''second'') PNone,
      post 12 (2021, 1, 3, 9, 30, 0) deleted_account (PStr ''ghost'') PNone,
      post 10 (2021, 1, 2, 18, 5, 59) newsco (PStr ''first'') PNone,
      post 14 (2021, 1, 5, 0, 0, 0) newsco (PStr ''late'') PNone]"

definition example_client :: client where
  "example_client =
     \<lparr>get_dialogs = [\<lparr>name = ''Family'', dialog_id = PInt 5\<rparr>, news_chat],
      get_messages = (\<lambda>cid n. []),
      get_messages_reverse = (\<lambda>cid n d. example_fetched)\<rparr>"

definition example_args :: args where
  "example_args = \<lparr>chat_name = ''News'', limit = 4, offset_date = Some (2021, 1, 1, 0, 0, 0)\<rparr>"

definition example_record ::
  "int \<Rightarrow> string \<Rightarrow> string \<Rightarrow> string \<Rightarrow> string \<Rightarrow> string \<Rightarrow> string \<Rightarrow> pydict" where
  "example_record i d mtype stype sname uname body =
     [(''message_id'', PInt i),
      (''chat_name'', PStr ''NewsCo''),
      (''date'', PStr d),
      (''chat_id'', PInt (- 1001)),
      (''message_type'', PStr mtype),
      (''sender_type'', PStr stype),
      (''sender_name'', PStr sname),
      (''sender_username'', PStr uname),
      (''sender_id'', PInt 42),
      (''message'', PStr body),
      (''views'', PInt 7),
      (''reply_to_msg_id'', PNone)]"

definition example_document :: "pydict list" where
  "example_document =
     [example_record 10 ''2021-01-02 18:05:59'' ''text'' ''channel'' ''NewsCo'' ''newsco'' ''first'',
      example_record 11 ''2021-01-03 09:30:00'' ''text'' ''channel'' ''NewsCo'' ''newsco'' ''second'',
      example_record 13 ''2021-01-04 08:00:00'' ''voice'' ''user'' ''Ada'' ''ada'' []]"

text \<open>
  The sample account with a history of three messages of which the first two delivered
  have the same timestamp, the one with the greater id first. The second client delivers
  them with the third message moved between the two, the third client with the two of equal
  timestamp exchanged.
\<close>

definition tie_fetched :: "raw_message list" where
  "tie_fetched =
     [post 31 (2021, 1, 3, 9, 30, 0) newsco (PStr ''b'') PNone,
      post 30 (2021, 1, 3, 9, 30, 0) ada (PStr ''a'') PNone,
      post 29 (2021, 1, 2, 18, 5, 59) newsco (PStr ''early'') PNone]"

definition moved_fetched :: "raw_message list" where
  "moved_fetched =
     [post 31 (2021, 1, 3, 9, 30, 0) newsco (PStr ''b'') PNone,
      post 29 (2021, 1, 2, 18, 5, 59) newsco (PStr ''early'') PNone,
      post 30 (2021, 1, 3, 9, 30, 0) ada (PStr ''a'') PNone]"

definition swapped_fetched :: "raw_message list" where
  "swapped_fetched =
     [post 30 (2021, 1, 3, 9, 30, 0) ada (PStr ''a'') PNone,
      post 31 (2021, 1, 3, 9, 30, 0) newsco (PStr ''b'') PNone,
      post 29 (2021, 1, 2, 18, 5, 59) newsco (PStr ''early'') PNone]"

definition tie_client :: client where
  "tie_client = example_client\<lparr>get_messages_reverse := (\<lambda>cid n d. tie_fetched)\<rparr>"

definition moved_client :: client where
  "moved_client = example_client\<lparr>get_messages_reverse := (\<lambda>cid n d. moved_fetched)\<rparr>"

definition swapped_client :: client where
  "swapped_client = example_client\<lparr>get_messages_reverse := (\<lambda>cid n d. swapped_fetched)\<rparr>"

definition tie_document :: "pydict list" where
  "tie_document =
     [example_record 29 ''2021-01-02 18:05:59'' ''text'' ''channel'' ''NewsCo'' ''newsco'' ''early'',
      example_record 31 ''2021-01-03 09:30:00'' ''text'' ''channel'' ''NewsCo'' ''newsco'' ''b'',
      example_record 30 ''2021-01-03 09:30:00'' ''text'' ''user'' ''Ada'' ''ada'' ''a'']"

definition swapped_document :: "pydict list" where
  "swapped_document =
     [example_record 29 ''2021-01-02 18:05:59'' ''text'' ''channel'' ''NewsCo'' ''newsco'' ''early'',
      example_record 30 ''2021-01-03 09:30:00'' ''text'' ''user'' ''Ada'' ''ada'' ''a'',
      example_record 31 ''2021-01-03 09:30:00'' ''text'' ''channel'' ''NewsCo'' ''newsco'' ''b'']"

text \<open>
  An account with two dialogs that match \<^verbatim>\<open>News\<close>. The latest message of the
  first is a service message (someone joined the group): the client library gives such a
  message the text \<^verbatim>\<open>None\<close>.
\<close>

definition service_message :: raw_message where
  "service_message = post 77 (2021, 2, 1, 12, 0, 0) ada PNone PNone"

definition ambiguous_client :: client where
  "ambiguous_client =
     \<lparr>get_dialogs = [news_chat, \<lparr>name = ''News Daily'', dialog_id = PInt 9\<rparr>],
      get_messages = (\<lambda>cid n. if cid = PInt (- 1001) then [service_message] else []),
      get_messages_reverse = (\<lambda>cid n d. [])\<rparr>"

text \<open>A message whose sender the client library could not resolve (\<^verbatim>\<open>None\<close>).\<close>

definition anonymous_message :: raw_message where
  "anonymous_message = post 20 (2021, 3, 1, 7, 0, 0) (Other None) (PStr ''hello'') PNone"

text \<open>The sample account when the history holds that message between two posts.\<close>

definition anonymous_client :: client where
  "anonymous_client =
     example_client\<lparr>get_messages_reverse := (\<lambda>cid n d.
       [post 10 (2021, 1, 2, 18, 5, 59) newsco (PStr ''first'') PNone,
        anonymous_message,
        post 14 (2021, 3, 5, 0, 0, 0) newsco (PStr ''late'') PNone])\<rparr>"

text \<open>A message whose sender is an object of another class that has a \<^verbatim>\<open>username\<close>.\<close>

definition foreign_message :: raw_message where
  "foreign_message =
     post 21 (2021, 3, 2, 7, 0, 0) (Other (Some (PStr ''guest''))) (PStr ''hi'') PNone"

section \<open>The service as far as the resolution looks at it\<close>

lemma print_choices_cong:
  assumes "get_messages cl1 = get_messages cl2"
  shows "print_choices mk cl1 i chats = print_choices mk cl2 i chats"
proof (induction chats arbitrary: i)
  case Nil
  show ?case by simp
next
  case (Cons chat chats)
  have "print_choices mk cl1 (Suc i) chats = print_choices mk cl2 (Suc i) chats"
    by (rule Cons.IH)
  then show ?case
    by (simp add: get_messages_by_chat_id_def assms Let_def cong: sum.case_cong if_cong)
qed

lemma find_chat_by_name_cong:
  assumes "get_dialogs cl1 = get_dialogs cl2" and "get_messages cl1 = get_messages cl2"
  shows "find_chat_by_name mk cl1 typed q = find_chat_by_name mk cl2 typed q"
proof -
  have "found_chats cl1 q = found_chats cl2 q"
    by (simp add: found_chats_def list_all_chats_def assms(1))
  moreover have "print_choices mk cl1 0 chats = print_choices mk cl2 0 chats" for chats
    using assms(2) by (rule print_choices_cong)
  ultimately show ?thesis
    by (simp add: find_chat_by_name_def Let_def cong: sum.case_cong if_cong)
qed

section \<open>The sample run\<close>

lemma example_chat:
  "find_chat_by_name (\<lambda>line. True) example_client None (chat_name example_args) = Inr news_chat"
  by (simp add: find_chat_by_name_def found_chats_def list_all_chats_def example_client_def
      example_args_def news_chat_def getitem_def)

lemma example_fetch:
  "get_channel_history example_args example_client (dialog_id news_chat) = Inr example_fetched"
  by (simp add: get_channel_history_def example_client_def example_args_def)

lemma example_sorted:
  "sort_key date example_fetched =
     [post 10 (2021, 1, 2, 18, 5, 59) newsco (PStr ''first'') PNone,
      post 11 (2021, 1, 3, 9, 30, 0) newsco (PStr ''second'') PNone,
      post 12 (2021, 1, 3, 9, 30, 0) deleted_account (PStr ''ghost'') PNone,
      post 13 (2021, 1, 4, 8, 0, 0) ada (PStr []) (PObj ''Document''),
      post 14 (2021, 1, 5, 0, 0, 0) newsco (PStr ''late'') PNone]"
  by (simp add: example_fetched_def post_def)

lemma example_export: "export_history news_chat 4 example_fetched = Inr example_document"
  by (simp add: export_history_def example_sorted slice_to_def)
    (simp add: post_def newsco_def ada_def deleted_account_def initial_vars_def loop_body_def
      message_type_of_def formatted_message_def json_dumps_ok_def pad2_def pad4_def digit_def
      news_chat_def example_document_def example_record_def)

lemma example_run: "main (\<lambda>line. True) example_args example_client None = Inr example_document"
  using example_export
  by (simp add: main_def example_chat example_fetch) (simp add: example_args_def)

text \<open>The runs against the clients that hand out the history with the tie.\<close>

lemma sample_account_main:
  assumes "get_dialogs cl = get_dialogs example_client"
    and "get_messages cl = get_messages example_client"
  shows "main (\<lambda>line. True) example_args cl None =
           export_history news_chat 4
             (get_messages_reverse cl (PInt (- 1001)) 4 (2021, 1, 1, 0, 0, 0))"
proof -
  from assms have "find_chat_by_name (\<lambda>line. True) cl None (chat_name example_args) =
                   find_chat_by_name (\<lambda>line. True) example_client None (chat_name example_args)"
    by (rule find_chat_by_name_cong)
  with example_chat have "find_chat_by_name (\<lambda>line. True) cl None (chat_name example_args)
                          = Inr news_chat"
    by simp
  then show ?thesis
    by (simp add: main_def get_channel_history_def)
      (simp add: example_args_def news_chat_def)
qed

lemma tie_chat:
  "find_chat_by_name (\<lambda>line. True) tie_client None (chat_name example_args) = Inr news_chat"
proof -
  have "find_chat_by_name (\<lambda>line. True) tie_client None (chat_name example_args) =
        find_chat_by_name (\<lambda>line. True) example_client None (chat_name example_args)"
    by (rule find_chat_by_name_cong) (simp_all add: tie_client_def)
  with example_chat show ?thesis by simp
qed

lemma tie_fetch:
  "get_channel_history example_args tie_client (dialog_id news_chat) = Inr tie_fetched"
  by (simp add: get_channel_history_def tie_client_def example_args_def)

lemma tie_export: "export_history news_chat 4 tie_fetched = Inr tie_document"
  by (simp add: export_history_def slice_to_def tie_fetched_def post_def newsco_def ada_def
      initial_vars_def loop_body_def message_type_of_def formatted_message_def
      json_dumps_ok_def pad2_def pad4_def digit_def news_chat_def tie_document_def
      example_record_def)

lemma swapped_export: "export_history news_chat 4 swapped_fetched = Inr swapped_document"
  by (simp add: export_history_def slice_to_def swapped_fetched_def post_def newsco_def ada_def
      initial_vars_def loop_body_def message_type_of_def formatted_message_def
      json_dumps_ok_def pad2_def pad4_def digit_def news_chat_def swapped_document_def
      example_record_def)

lemma tie_run: "main (\<lambda>line. True) example_args tie_client None = Inr tie_document"
  by (simp add: sample_account_main tie_client_def tie_export)

lemma swapped_run:
  "main (\<lambda>line. True) example_args swapped_client None = Inr swapped_document"
  by (simp add: sample_account_main swapped_client_def swapped_export)

section \<open>What the loop adds to the document\<close>

lemma str_contains_sublist: "str_contains q s \<longleftrightarrow> sublist q s"
  by (induction s) (auto simp: sublist_Cons_right)

lemma sender_branch_no_name:
  "sender_branch vars s = (vars1, True) \<Longrightarrow> \<not> no_name s"
  by (cases s) (auto simp: Let_def split: if_splits)

lemma sender_branch_messages:
  "sender_branch vars s = (vars1, b) \<Longrightarrow> messages vars1 = messages vars"
  by (cases s) (auto simp: Let_def split: if_splits)

text \<open>One iteration leaves the document as it is or appends the record of its message.\<close>

lemma loop_body_step:
  assumes "loop_body chat vars m = Inr vars1"
  shows "messages vars1 = messages vars \<or>
         (\<exists>r. messages vars1 = messages vars @ [r] \<and> record_from chat m r)"
proof -
  obtain v b where sb: "sender_branch vars (sender m) = (v, b)"
    by (cases "sender_branch vars (sender m)")
  have mv: "messages v = messages vars"
    using sb by (rule sender_branch_messages)
  show ?thesis
  proof (cases b)
    case False
    with assms sb have "vars1 = v" by (simp add: loop_body_def)
    with mv show ?thesis by simp
  next
    case True
    with sb have nn: "\<not> no_name (sender m)" by (simp add: sender_branch_no_name)
    from assms sb True nn mv show ?thesis
      by (fastforce simp: loop_body_def record_from_def Let_def
          split: option.splits sum.splits if_splits)
  qed
qed

text \<open>
  The records the loop appends belong, one by one and in order, to a subsequence of the
  messages it ran over.
\<close>

lemma main_loop_trace:
  "main_loop chat vars ms = Inr vars' \<Longrightarrow>
     \<exists>kept new. messages vars' = messages vars @ new \<and> subseq kept ms
        \<and> list_all2 (record_from chat) kept new"
proof (induction ms arbitrary: vars)
  case Nil
  then show ?case by auto
next
  case (Cons m ms)
  from Cons.prems obtain v1 where
    b: "loop_body chat vars m = Inr v1" and l: "main_loop chat v1 ms = Inr vars'"
    by (auto split: sum.splits)
  from Cons.IH [OF l] obtain kept new where
    k: "messages vars' = messages v1 @ new" "subseq kept ms"
       "list_all2 (record_from chat) kept new"
    by blast
  from loop_body_step [OF b] show ?case
  proof
    assume "messages v1 = messages vars"
    with k have "messages vars' = messages vars @ new \<and> subseq kept (m # ms)
        \<and> list_all2 (record_from chat) kept new" by auto
    then show ?thesis by blast
  next
    assume "\<exists>r. messages v1 = messages vars @ [r] \<and> record_from chat m r"
    then obtain r where r: "messages v1 = messages vars @ [r]" "record_from chat m r" by blast
    with k have "messages vars' = messages vars @ (r # new) \<and> subseq (m # kept) (m # ms)
        \<and> list_all2 (record_from chat) (m # kept) (r # new)" by auto
    then show ?thesis by blast
  qed
qed

lemma sender_branch_continue:
  "sender_branch vars s = (vars1, False) \<Longrightarrow> no_name s"
  by (cases s) (auto simp: Let_def split: if_splits)

lemma json_dumps_ok_formatted:
  "json_dumps_ok (formatted_message chat m d t stype sname uname) \<longleftrightarrow>
     json_value_ok (msg_id m) \<and> json_value_ok (chat_id m) \<and> json_value_ok uname \<and>
     json_value_ok (sender_id m) \<and> json_value_ok (views m) \<and>
     json_value_ok (reply_to_msg_id m)"
  by (simp add: json_dumps_ok_def formatted_message_def)

text \<open>
  An iteration that does not raise appends the record of its message when the message has
  one, and leaves the document as it is otherwise.
\<close>

lemma loop_body_exact:
  assumes "loop_body chat vars m = Inr vars1"
  shows "if has_record m
         then \<exists>r. messages vars1 = messages vars @ [r] \<and> record_from chat m r
         else messages vars1 = messages vars"
proof -
  obtain v b where sb: "sender_branch vars (sender m) = (v, b)"
    by (cases "sender_branch vars (sender m)")
  have mv: "messages v = messages vars"
    using sb by (rule sender_branch_messages)
  show ?thesis
  proof (cases b)
    case False
    with sb have "no_name (sender m)" by (simp add: sender_branch_continue)
    moreover from assms sb False have "vars1 = v" by (simp add: loop_body_def)
    ultimately show ?thesis using mv by (simp add: has_record_def)
  next
    case True
    with sb have nn: "\<not> no_name (sender m)" by (simp add: sender_branch_no_name)
    from assms sb True obtain stype where st: "sender_type v = Some stype"
      by (auto simp: loop_body_def Let_def split: option.splits)
    from assms sb True st obtain sname where sn: "sender_name v = Some sname"
      by (auto simp: loop_body_def Let_def split: option.splits)
    from assms sb True st sn obtain uname where u: "getattr_username (sender m) = Inr uname"
      by (auto simp: loop_body_def Let_def split: sum.splits)
    from assms sb True st sn u have
      r: "vars1 = (if json_dumps_ok (formatted_message chat m (strftime (date m))
                            (message_type_of m) stype sname uname)
                then v\<lparr>messages := messages v @ [formatted_message chat m (strftime (date m))
                            (message_type_of m) stype sname uname]\<rparr>
                else v)"
      by (auto simp: loop_body_def Let_def split: if_splits)
    have s: "serialisable m \<longleftrightarrow> json_dumps_ok (formatted_message chat m (strftime (date m))
                            (message_type_of m) stype sname uname)"
      by (simp add: serialisable_def u json_dumps_ok_formatted)
    show ?thesis
    proof (cases "serialisable m")
      case True
      with s r mv nn show ?thesis
        by (auto simp: has_record_def record_from_def)
    next
      case False
      with s r mv show ?thesis
        by (simp add: has_record_def)
    qed
  qed
qed

text \<open>
  A loop that comes to its end has appended the records of exactly the messages that have
  one, in the order of the messages.
\<close>

lemma main_loop_exact:
  "main_loop chat vars ms = Inr vars' \<Longrightarrow>
     \<exists>new. messages vars' = messages vars @ new
        \<and> list_all2 (record_from chat) (filter has_record ms) new"
proof (induction ms arbitrary: vars)
  case Nil
  then show ?case by auto
next
  case (Cons m ms)
  from Cons.prems obtain v1 where
    b: "loop_body chat vars m = Inr v1" and l: "main_loop chat v1 ms = Inr vars'"
    by (auto split: sum.splits)
  from Cons.IH [OF l] obtain new where
    k: "messages vars' = messages v1 @ new"
       "list_all2 (record_from chat) (filter has_record ms) new"
    by blast
  show ?case
  proof (cases "has_record m")
    case True
    with loop_body_exact [OF b] obtain r where
      r: "messages v1 = messages vars @ [r]" "record_from chat m r"
      by auto
    with k True have "messages vars' = messages vars @ (r # new)
        \<and> list_all2 (record_from chat) (filter has_record (m # ms)) (r # new)"
      by simp
    then show ?thesis by blast
  next
    case False
    with loop_body_exact [OF b] have "messages v1 = messages vars"
      by simp
    with k False have "messages vars' = messages vars @ new
        \<and> list_all2 (record_from chat) (filter has_record (m # ms)) new"
      by simp
    then show ?thesis by blast
  qed
qed

lemma main_exact:
  assumes "find_chat_by_name mk cl typed (chat_name a) = Inr chat"
    and "get_channel_history a cl (dialog_id chat) = Inr fetched"
    and "main mk a cl typed = Inr doc"
  shows "list_all2 (record_from chat)
           (filter has_record (slice_to (sort_key date fetched) (limit a))) doc"
proof -
  from assms have "export_history chat (limit a) fetched = Inr doc"
    by (simp add: main_def)
  then obtain vars where
    l: "main_loop chat initial_vars (slice_to (sort_key date fetched) (limit a)) = Inr vars"
    and d: "doc = messages vars"
    by (auto simp: export_history_def Let_def split: sum.splits)
  from main_loop_exact [OF l] d show ?thesis
    by (auto simp: initial_vars_def)
qed

lemma export_history_trace:
  assumes "export_history chat lim fetched = Inr doc"
  shows "\<exists>kept. subseq kept (slice_to (sort_key date fetched) lim)
           \<and> list_all2 (record_from chat) kept doc"
proof -
  from assms obtain vars where
    l: "main_loop chat initial_vars (slice_to (sort_key date fetched) lim) = Inr vars"
    and d: "doc = messages vars"
    by (auto simp: export_history_def Let_def split: sum.splits)
  from main_loop_trace [OF l] d show ?thesis
    by (auto simp: initial_vars_def)
qed

lemma main_export:
  assumes "find_chat_by_name mk cl typed (chat_name a) = Inr chat"
    and "get_channel_history a cl (dialog_id chat) = Inr fetched"
  shows "main mk a cl typed = export_history chat (limit a) fetched"
  using assms by (simp add: main_def)

lemma main_trace:
  assumes "find_chat_by_name mk cl typed (chat_name a) = Inr chat"
    and "get_channel_history a cl (dialog_id chat) = Inr fetched"
    and "main mk a cl typed = Inr doc"
  shows "\<exists>kept. subseq kept (slice_to (sort_key date fetched) (limit a))
           \<and> list_all2 (record_from chat) kept doc"
  using assms export_history_trace [of chat "limit a" fetched doc]
  by (simp add: main_export)

lemma main_Inr:
  assumes "main mk a cl typed = Inr doc"
  shows "\<exists>chat fetched. find_chat_by_name mk cl typed (chat_name a) = Inr chat
           \<and> get_channel_history a cl (dialog_id chat) = Inr fetched"
  using assms by (auto simp: main_def split: sum.splits)

lemma subseq_sorted_map:
  assumes "subseq ys xs" and "sorted (map f xs)"
  shows "sorted (map f ys)"
proof -
  from assms(1) have "subseq (map f ys) (map f xs)"
    by (rule subseq_map)
  then obtain N where "map f ys = nths (map f xs) N"
    by (auto simp: subseq_conv_nths)
  with assms(2) show ?thesis
    by (simp add: sorted_nths)
qed

lemma slice_to_subseq: "subseq (slice_to xs n) xs"
  by (simp add: slice_to_def prefix_imp_subseq take_is_prefix)

lemma record_from_date:
  "record_from chat m r \<Longrightarrow> map_of r ''date'' = Some (PStr (strftime (date m)))"
  by (auto simp: record_from_def formatted_message_def)

lemma record_from_message_id:
  "record_from chat m r \<Longrightarrow> map_of r ''message_id'' = Some (msg_id m)"
  by (auto simp: record_from_def formatted_message_def)

lemma record_from_message:
  "record_from chat m r \<Longrightarrow> map_of r ''message'' = Some (PStr (str_of (message m)))"
  by (auto simp: record_from_def formatted_message_def)

lemma record_from_message_type:
  "record_from chat m r \<Longrightarrow>
     map_of r ''message_type'' = Some (PStr (if truthy (voice m) then ''voice'' else ''text''))"
  by (auto simp: record_from_def formatted_message_def message_type_of_def)

lemma record_from_keys:
  "record_from chat m r \<Longrightarrow>
     map fst r = [''message_id'', ''chat_name'', ''date'', ''chat_id'', ''message_type'',
       ''sender_type'', ''sender_name'', ''sender_username'', ''sender_id'', ''message'',
       ''views'', ''reply_to_msg_id'']"
  by (auto simp: record_from_def formatted_message_def)

text \<open>
  C3: whatever the order of the fetched messages, the loop runs over the messages sorted by
  date and cut by the slice, and the records of the document are, one by one and in order,
  those of the messages of that sequence that have a record; their dates ascend. For a
  limit that is not negative the sequence is the first \<open>limit\<close> messages of the sorted
  ones, so nothing beyond them and nothing less reaches the document.
\<close>

theorem document_sorted_by_date:
  assumes "find_chat_by_name mk cl typed (chat_name a) = Inr chat"
    and "get_channel_history a cl (dialog_id chat) = Inr fetched"
    and "main mk a cl typed = Inr doc"
  shows "list_all2 (\<lambda>m r. map_of r ''message_id'' = Some (msg_id m)
                         \<and> map_of r ''date'' = Some (PStr (strftime (date m))))
           (filter has_record (slice_to (sort_key date fetched) (limit a))) doc
         \<and> sorted (map date (filter has_record (slice_to (sort_key date fetched) (limit a))))
         \<and> (0 \<le> limit a \<longrightarrow>
              list_all2 (\<lambda>m r. map_of r ''message_id'' = Some (msg_id m)
                              \<and> map_of r ''date'' = Some (PStr (strftime (date m))))
                (filter has_record (take (nat (limit a)) (sort_key date fetched))) doc)"
proof -
  have "list_all2 (record_from chat)
          (filter has_record (slice_to (sort_key date fetched) (limit a))) doc"
    using assms by (rule main_exact)
  then have d: "list_all2 (\<lambda>m r. map_of r ''message_id'' = Some (msg_id m)
                         \<and> map_of r ''date'' = Some (PStr (strftime (date m))))
           (filter has_record (slice_to (sort_key date fetched) (limit a))) doc"
    by (rule list_all2_mono) (simp add: record_from_message_id record_from_date)
  have "subseq (filter has_record (slice_to (sort_key date fetched) (limit a)))
          (sort_key date fetched)"
    using subseq_filter_left slice_to_subseq subseq_order.trans by blast
  then have s: "sorted (map date (filter has_record
                  (slice_to (sort_key date fetched) (limit a))))"
    by (rule subseq_sorted_map) simp
  have "slice_to (sort_key date fetched) (limit a) = take (nat (limit a)) (sort_key date fetched)"
    if "0 \<le> limit a"
    using that by (simp add: slice_to_def)
  with d s show ?thesis by auto
qed

theorem document_sorted_by_date_witness:
  "main (\<lambda>line. True) example_args example_client None = Inr example_document \<and>
   filter has_record (take 4 (sort_key date example_fetched)) =
     [post 10 (2021, 1, 2, 18, 5, 59) newsco (PStr ''first'') PNone,
      post 11 (2021, 1, 3, 9, 30, 0) newsco (PStr ''second'') PNone,
      post 13 (2021, 1, 4, 8, 0, 0) ada (PStr []) (PObj ''Document'')] \<and>
   list_all2 (\<lambda>m r. map_of r ''message_id'' = Some (msg_id m)
                         \<and> map_of r ''date'' = Some (PStr (strftime (date m))))
     (filter has_record (take 4 (sort_key date example_fetched))) example_document \<and>
   sorted (map date (filter has_record
     (slice_to (sort_key date example_fetched) (limit example_args))))"
proof -
  have l: "0 \<le> limit example_args" "nat (limit example_args) = 4"
    by (simp_all add: example_args_def)
  have f: "filter has_record (take 4 (sort_key date example_fetched)) =
     [post 10 (2021, 1, 2, 18, 5, 59) newsco (PStr ''first'') PNone,
      post 11 (2021, 1, 3, 9, 30, 0) newsco (PStr ''second'') PNone,
      post 13 (2021, 1, 4, 8, 0, 0) ada (PStr []) (PObj ''Document'')]"
    by (simp add: example_sorted)
      (simp add: has_record_def serialisable_def post_def newsco_def ada_def
        deleted_account_def)
  from document_sorted_by_date [OF example_chat example_fetch example_run] l example_run f
  show ?thesis by simp
qed

lemma list_all2_left_set:
  "list_all2 P xs ys \<Longrightarrow> x \<in> set xs \<Longrightarrow> \<exists>y \<in> set ys. P x y"
  by (induction rule: list_all2_induct) auto

lemma list_all2_right_set:
  "list_all2 P xs ys \<Longrightarrow> y \<in> set ys \<Longrightarrow> \<exists>x \<in> set xs. P x y"
  by (induction rule: list_all2_induct) auto

lemma subseq_filter_all:
  assumes "subseq ys xs" and "\<And>y. y \<in> set ys \<Longrightarrow> P y"
  shows "subseq ys (filter P xs)"
proof -
  from assms(1) have "subseq (filter P ys) (filter P xs)"
    by (rule subseq_filter)
  moreover from assms(2) have "filter P ys = ys"
    by (simp add: filter_id_conv)
  ultimately show ?thesis by simp
qed

text \<open>
  C4: the records of the document belong, in order, to messages that are left when every
  message of a person with neither a first nor a last name is taken out of the processed
  sequence: such a message has no record.
\<close>

theorem no_name_message_absent:
  assumes "find_chat_by_name mk cl typed (chat_name a) = Inr chat"
    and "get_channel_history a cl (dialog_id chat) = Inr fetched"
    and "main mk a cl typed = Inr doc"
  shows "\<exists>kept. subseq kept (filter (\<lambda>m. \<not> no_name (sender m))
                                (slice_to (sort_key date fetched) (limit a)))
           \<and> list_all2 (\<lambda>m r. map_of r ''message_id'' = Some (msg_id m)
                                \<and> map_of r ''date'' = Some (PStr (strftime (date m)))) kept doc"
proof -
  from main_trace [OF assms] obtain kept where
    k: "subseq kept (slice_to (sort_key date fetched) (limit a))"
       "list_all2 (record_from chat) kept doc"
    by blast
  have "\<not> no_name (sender m)" if "m \<in> set kept" for m
    using list_all2_left_set [OF k(2) that] by (auto simp: record_from_def)
  with k(1) have "subseq kept (filter (\<lambda>m. \<not> no_name (sender m))
                                (slice_to (sort_key date fetched) (limit a)))"
    by (rule subseq_filter_all)
  moreover from k(2) have "list_all2 (\<lambda>m r. map_of r ''message_id'' = Some (msg_id m)
                                \<and> map_of r ''date'' = Some (PStr (strftime (date m)))) kept doc"
    by (rule list_all2_mono) (simp add: record_from_message_id record_from_date)
  ultimately show ?thesis by blast
qed

theorem no_name_message_absent_witness:
  "main (\<lambda>line. True) example_args example_client None = Inr example_document \<and>
   no_name deleted_account \<and>
   (\<exists>kept. subseq kept (filter (\<lambda>m. \<not> no_name (sender m))
                          (slice_to (sort_key date example_fetched) (limit example_args)))
           \<and> list_all2 (\<lambda>m r. map_of r ''message_id'' = Some (msg_id m)
                                \<and> map_of r ''date'' = Some (PStr (strftime (date m))))
                kept example_document)"
proof -
  have "no_name deleted_account"
    by (simp add: deleted_account_def)
  with no_name_message_absent [OF example_chat example_fetch example_run] example_run
  show ?thesis by blast
qed

text \<open>
  C5, as amended: the field \<^verbatim>\<open>message\<close> of a record is the text that
  \<^verbatim>\<open>str()\<close> makes of the raw body. It is the body itself when the body is a
  string (so the empty string for an empty body), the four letters \<^verbatim>\<open>None\<close>
  when the body is null, and never null.
\<close>

theorem message_field_is_str_of_body:
  assumes "find_chat_by_name mk cl typed (chat_name a) = Inr chat"
    and "get_channel_history a cl (dialog_id chat) = Inr fetched"
    and "main mk a cl typed = Inr doc"
  shows "\<exists>kept. subseq kept (slice_to (sort_key date fetched) (limit a))
           \<and> list_all2 (\<lambda>m r. map_of r ''message_id'' = Some (msg_id m)
                                \<and> map_of r ''message'' = Some (PStr (str_of (message m)))
                                \<and> map_of r ''message'' \<noteq> Some PNone
                                \<and> (\<forall>s. message m = PStr s \<longrightarrow> map_of r ''message'' = Some (PStr s))
                                \<and> (message m = PNone \<longrightarrow> map_of r ''message'' = Some (PStr ''None'')))
                kept doc"
proof -
  from main_trace [OF assms] obtain kept where
    k: "subseq kept (slice_to (sort_key date fetched) (limit a))"
       "list_all2 (record_from chat) kept doc"
    by blast
  from k(2) have "list_all2 (\<lambda>m r. map_of r ''message_id'' = Some (msg_id m)
                                \<and> map_of r ''message'' = Some (PStr (str_of (message m)))
                                \<and> map_of r ''message'' \<noteq> Some PNone
                                \<and> (\<forall>s. message m = PStr s \<longrightarrow> map_of r ''message'' = Some (PStr s))
                                \<and> (message m = PNone \<longrightarrow> map_of r ''message'' = Some (PStr ''None'')))
                kept doc"
    by (rule list_all2_mono) (auto simp: record_from_message record_from_message_id)
  with k(1) show ?thesis by blast
qed

theorem message_field_is_str_of_body_witness:
  "main (\<lambda>line. True) example_args example_client None = Inr example_document \<and>
   (\<exists>kept. subseq kept (slice_to (sort_key date example_fetched) (limit example_args))
           \<and> list_all2 (\<lambda>m r. map_of r ''message_id'' = Some (msg_id m)
                                \<and> map_of r ''message'' = Some (PStr (str_of (message m)))
                                \<and> map_of r ''message'' \<noteq> Some PNone
                                \<and> (\<forall>s. message m = PStr s \<longrightarrow> map_of r ''message'' = Some (PStr s))
                                \<and> (message m = PNone \<longrightarrow> map_of r ''message'' = Some (PStr ''None'')))
                kept example_document)"
  using example_run message_field_is_str_of_body [OF example_chat example_fetch example_run]
  by (rule conjI)

text \<open>
  C5, as stated, fails: a message without text content whose body is null (a service
  message) gets the field \<^verbatim>\<open>"None"\<close>, not the empty string.
\<close>

theorem message_field_null_body_counterexample:
  "message service_message = PNone \<and>
   export_history news_chat 10 [service_message] =
     Inr [example_record 77 ''2021-02-01 12:00:00'' ''text'' ''user'' ''Ada'' ''ada'' ''None''] \<and>
   map_of (example_record 77 ''2021-02-01 12:00:00'' ''text'' ''user'' ''Ada'' ''ada'' ''None'')
     ''message'' = Some (PStr ''None'')"
  by (simp add: export_history_def slice_to_def service_message_def post_def ada_def
      initial_vars_def loop_body_def message_type_of_def formatted_message_def
      json_dumps_ok_def pad2_def pad4_def digit_def news_chat_def example_record_def)

text \<open>
  C6: the field \<^verbatim>\<open>message_type\<close> of a record is \<^verbatim>\<open>voice\<close> when the
  attribute \<^verbatim>\<open>voice\<close> of its message is truthy, and \<^verbatim>\<open>text\<close> otherwise.
\<close>

theorem message_type_voice_or_text:
  assumes "find_chat_by_name mk cl typed (chat_name a) = Inr chat"
    and "get_channel_history a cl (dialog_id chat) = Inr fetched"
    and "main mk a cl typed = Inr doc"
  shows "\<exists>kept. subseq kept (slice_to (sort_key date fetched) (limit a))
           \<and> list_all2 (\<lambda>m r. map_of r ''message_id'' = Some (msg_id m)
                                \<and> map_of r ''message_type''
                                  = Some (PStr (if truthy (voice m) then ''voice'' else ''text'')))
                kept doc"
proof -
  from main_trace [OF assms] obtain kept where
    k: "subseq kept (slice_to (sort_key date fetched) (limit a))"
       "list_all2 (record_from chat) kept doc"
    by blast
  from k(2) have "list_all2 (\<lambda>m r. map_of r ''message_id'' = Some (msg_id m)
                                \<and> map_of r ''message_type''
                                  = Some (PStr (if truthy (voice m) then ''voice'' else ''text'')))
                kept doc"
    by (rule list_all2_mono) (simp add: record_from_message_type record_from_message_id)
  with k(1) show ?thesis by blast
qed

theorem message_type_voice_or_text_witness:
  "main (\<lambda>line. True) example_args example_client None = Inr example_document \<and>
   (\<exists>kept. subseq kept (slice_to (sort_key date example_fetched) (limit example_args))
           \<and> list_all2 (\<lambda>m r. map_of r ''message_id'' = Some (msg_id m)
                                \<and> map_of r ''message_type''
                                  = Some (PStr (if truthy (voice m) then ''voice'' else ''text'')))
                kept example_document)"
  using example_run message_type_voice_or_text [OF example_chat example_fetch example_run]
  by (rule conjI)

text \<open>
  C7: every record of the document has exactly the twelve keys of the schema, each once, in
  the order of the dictionary display; a value is a Python value, null included.
\<close>

theorem record_has_all_fields:
  assumes "main mk a cl typed = Inr doc"
  shows "\<forall>r \<in> set doc.
           map fst r = [''message_id'', ''chat_name'', ''date'', ''chat_id'', ''message_type'',
             ''sender_type'', ''sender_name'', ''sender_username'', ''sender_id'', ''message'',
             ''views'', ''reply_to_msg_id'']"
proof
  fix r assume r: "r \<in> set doc"
  from main_Inr [OF assms] obtain chat fetched where
    c: "find_chat_by_name mk cl typed (chat_name a) = Inr chat"
       "get_channel_history a cl (dialog_id chat) = Inr fetched"
    by blast
  from main_trace [OF c assms] obtain kept where
    "list_all2 (record_from chat) kept doc"
    by blast
  from list_all2_right_set [OF this r] obtain m where "record_from chat m r"
    by blast
  then show "map fst r = [''message_id'', ''chat_name'', ''date'', ''chat_id'', ''message_type'',
             ''sender_type'', ''sender_name'', ''sender_username'', ''sender_id'', ''message'',
             ''views'', ''reply_to_msg_id'']"
    by (rule record_from_keys)
qed

theorem record_has_all_fields_witness:
  "main (\<lambda>line. True) example_args example_client None = Inr example_document \<and>
   list_all (\<lambda>r. map fst r = [''message_id'', ''chat_name'', ''date'', ''chat_id'',
             ''message_type'', ''sender_type'', ''sender_name'', ''sender_username'',
             ''sender_id'', ''message'', ''views'', ''reply_to_msg_id'']) example_document"
  using example_run record_has_all_fields [OF example_run]
  by (simp only: list_all_iff simp_thms)

text \<open>
  C10: for every timestamp, the messages of that timestamp that have a record in the
  document come in the document in the order in which the service delivered them.
\<close>

theorem equal_dates_keep_fetch_order:
  assumes "find_chat_by_name mk cl typed (chat_name a) = Inr chat"
    and "get_channel_history a cl (dialog_id chat) = Inr fetched"
    and "main mk a cl typed = Inr doc"
  shows "\<exists>kept. list_all2 (\<lambda>m r. map_of r ''message_id'' = Some (msg_id m)
                                \<and> map_of r ''date'' = Some (PStr (strftime (date m)))) kept doc
           \<and> (\<forall>t. subseq (filter (\<lambda>m. date m = t) kept) (filter (\<lambda>m. date m = t) fetched))"
proof -
  from main_trace [OF assms] obtain kept where
    k: "subseq kept (slice_to (sort_key date fetched) (limit a))"
       "list_all2 (record_from chat) kept doc"
    by blast
  from k(1) have "subseq kept (sort_key date fetched)"
    using slice_to_subseq subseq_order.trans by blast
  then have "subseq (filter (\<lambda>m. date m = t) kept)
                    (filter (\<lambda>m. date m = t) (sort_key date fetched))" for t
    by (rule subseq_filter)
  then have "subseq (filter (\<lambda>m. date m = t) kept) (filter (\<lambda>m. date m = t) fetched)" for t
    by (simp add: sort_key_stable)
  moreover from k(2) have "list_all2 (\<lambda>m r. map_of r ''message_id'' = Some (msg_id m)
                                \<and> map_of r ''date'' = Some (PStr (strftime (date m)))) kept doc"
    by (rule list_all2_mono) (simp add: record_from_message_id record_from_date)
  ultimately show ?thesis by blast
qed

theorem equal_dates_keep_fetch_order_witness:
  "main (\<lambda>line. True) example_args tie_client None = Inr tie_document \<and>
   map date tie_fetched =
     [(2021, 1, 3, 9, 30, 0), (2021, 1, 3, 9, 30, 0), (2021, 1, 2, 18, 5, 59)] \<and>
   map msg_id tie_fetched = [PInt 31, PInt 30, PInt 29] \<and>
   map (\<lambda>r. map_of r ''message_id'') tie_document =
     [Some (PInt 29), Some (PInt 31), Some (PInt 30)] \<and>
   (\<exists>kept. list_all2 (\<lambda>m r. map_of r ''message_id'' = Some (msg_id m)
                                \<and> map_of r ''date'' = Some (PStr (strftime (date m))))
              kept tie_document
           \<and> (\<forall>t. subseq (filter (\<lambda>m. date m = t) kept)
                         (filter (\<lambda>m. date m = t) tie_fetched)))"
proof -
  have "map date tie_fetched =
     [(2021, 1, 3, 9, 30, 0), (2021, 1, 3, 9, 30, 0), (2021, 1, 2, 18, 5, 59)]"
    and "map msg_id tie_fetched = [PInt 31, PInt 30, PInt 29]"
    by (simp_all add: tie_fetched_def post_def)
  moreover have "map (\<lambda>r. map_of r ''message_id'') tie_document =
     [Some (PInt 29), Some (PInt 31), Some (PInt 30)]"
    by (simp add: tie_document_def example_record_def)
  ultimately show ?thesis
    using tie_run equal_dates_keep_fetch_order [OF tie_chat tie_fetch tie_run]
    by blast
qed

section \<open>Two runs\<close>

lemma mset_eq_of_filters:
  assumes "\<And>t. filter (\<lambda>m. f m = t) xs = filter (\<lambda>m. f m = t) ys"
  shows "mset xs = mset ys"
proof (rule multiset_eqI)
  fix x
  have "count (mset xs) x = count (mset (filter (\<lambda>m. f m = f x) xs)) x"
    by simp
  also have "\<dots> = count (mset (filter (\<lambda>m. f m = f x) ys)) x"
    by (simp only: assms)
  also have "\<dots> = count (mset ys) x"
    by simp
  finally show "count (mset xs) x = count (mset ys) x" .
qed

text \<open>
  The stable sort gives the same list for two lists that hold, for every key, the same
  elements of that key in the same order.
\<close>

lemma sort_key_cong_filters:
  assumes "\<And>t. filter (\<lambda>m. f m = t) xs = filter (\<lambda>m. f m = t) ys"
  shows "sort_key f xs = sort_key f ys"
proof (rule properties_for_sort_key)
  show "mset (sort_key f ys) = mset xs"
    using mset_eq_of_filters [of f xs ys] assms by simp
  show "filter (\<lambda>x. f k = f x) (sort_key f ys) = filter (\<lambda>x. f k = f x) xs" for k
  proof -
    have "filter (\<lambda>x. f x = f k) (sort_key f ys) = filter (\<lambda>x. f x = f k) ys"
      by (rule sort_key_stable)
    also have "\<dots> = filter (\<lambda>x. f x = f k) xs"
      by (simp only: assms)
    finally show ?thesis by (simp add: eq_commute)
  qed
  show "sorted (map f (sort_key f ys))"
    by simp
qed

text \<open>
  C9, as amended: two runs with the same arguments and the same typed selection, against a
  service that lists the same dialogs, shows the same latest messages and answers the
  history request with the same messages, those of equal timestamp in the same order,
  return the same document and write the same text. The sort looks at the date only, so a
  tie is not broken by the message id or by anything else: it stays as the service
  delivered it.
\<close>

theorem same_inputs_same_document:
  assumes "get_dialogs cl1 = get_dialogs cl2"
    and "get_messages cl1 = get_messages cl2"
    and "\<And>cid n d t. filter (\<lambda>m. date m = t) (get_messages_reverse cl1 cid n d) =
            filter (\<lambda>m. date m = t) (get_messages_reverse cl2 cid n d)"
  shows "main mk a cl1 typed = main mk a cl2 typed
         \<and> json_messages mk a cl1 typed = json_messages mk a cl2 typed"
proof -
  have s: "sort_key date (get_messages_reverse cl1 cid n d) =
           sort_key date (get_messages_reverse cl2 cid n d)" for cid n d
    by (rule sort_key_cong_filters) (rule assms(3))
  have e: "export_history chat lim (get_messages_reverse cl1 cid n d) =
           export_history chat lim (get_messages_reverse cl2 cid n d)" for chat lim cid n d
    by (simp add: export_history_def s)
  have h: "(case get_channel_history a cl1 cid of Inl e \<Rightarrow> Inl e
            | Inr fetched \<Rightarrow> export_history chat (limit a) fetched) =
           (case get_channel_history a cl2 cid of Inl e \<Rightarrow> Inl e
            | Inr fetched \<Rightarrow> export_history chat (limit a) fetched)" for chat cid
    by (cases "offset_date a") (simp_all add: get_channel_history_def e)
  have f: "find_chat_by_name mk cl1 typed (chat_name a) = find_chat_by_name mk cl2 typed (chat_name a)"
    using assms(1,2) by (rule find_chat_by_name_cong)
  have "main mk a cl1 typed = main mk a cl2 typed"
    by (simp add: main_def f h cong: sum.case_cong)
  then show ?thesis
    by (simp add: json_messages_def)
qed

theorem same_inputs_same_document_witness:
  "tie_fetched \<noteq> moved_fetched \<and>
   main (\<lambda>line. True) example_args tie_client None = Inr tie_document \<and>
   main (\<lambda>line. True) example_args moved_client None = Inr tie_document \<and>
   json_messages (\<lambda>line. True) example_args tie_client None =
     json_messages (\<lambda>line. True) example_args moved_client None"
proof -
  have d: "get_dialogs tie_client = get_dialogs moved_client"
    by (simp add: tie_client_def moved_client_def)
  have m: "get_messages tie_client = get_messages moved_client"
    by (simp add: tie_client_def moved_client_def)
  have r: "filter (\<lambda>m. date m = t) (get_messages_reverse tie_client cid n d) =
           filter (\<lambda>m. date m = t) (get_messages_reverse moved_client cid n d)" for cid n d t
    by (auto simp: tie_client_def moved_client_def tie_fetched_def moved_fetched_def post_def)
  have "tie_fetched \<noteq> moved_fetched"
    by (simp add: tie_fetched_def moved_fetched_def post_def)
  with same_inputs_same_document [OF d m r, where a = example_args and typed = None
      and mk = "\<lambda>line. True"] tie_run
  show ?thesis by simp
qed

text \<open>
  C9, as stated, fails: the service holds the same three messages, and a fetch that
  delivers the two messages of equal timestamp the other way round gives a document with
  these two records exchanged. Neither document has them in the order of their ids by
  design: the tie is in the order of the fetch.
\<close>

theorem tie_order_follows_fetch_counterexample:
  "get_dialogs tie_client = get_dialogs swapped_client \<and>
   get_messages tie_client = get_messages swapped_client \<and>
   mset tie_fetched = mset swapped_fetched \<and>
   main (\<lambda>line. True) example_args tie_client None = Inr tie_document \<and>
   main (\<lambda>line. True) example_args swapped_client None = Inr swapped_document \<and>
   tie_document \<noteq> swapped_document \<and>
   json_messages (\<lambda>line. True) example_args tie_client None \<noteq>
     json_messages (\<lambda>line. True) example_args swapped_client None"
proof -
  have "get_dialogs tie_client = get_dialogs swapped_client"
    and "get_messages tie_client = get_messages swapped_client"
    by (simp_all add: tie_client_def swapped_client_def)
  moreover have "mset tie_fetched = mset swapped_fetched"
    by (simp add: tie_fetched_def swapped_fetched_def)
  moreover have n: "tie_document \<noteq> swapped_document"
    by (simp add: tie_document_def swapped_document_def example_record_def)
  moreover have "json_messages (\<lambda>line. True) example_args tie_client None \<noteq>
     json_messages (\<lambda>line. True) example_args swapped_client None"
    by (simp add: json_messages_def tie_run swapped_run json_dumps_def json_dumps_ok_def
        tie_document_def swapped_document_def example_record_def json_list_def json_dict_def
        json_string_def json_char_def str_int_def str_nat.simps digit_def)
  ultimately show ?thesis
    using tie_run swapped_run by simp
qed

section \<open>Resolving the chat\<close>

text \<open>
  C1, as amended: when no dialog's name contains the query, the function does not return
  a chat; it raises IndexError (the script has no error class of its own, and the read
  \<^verbatim>\<open>found_chats[0]\<close> of the empty list raises).
\<close>

theorem find_chat_by_name_no_match:
  assumes "\<forall>chat \<in> set (list_all_chats cl). \<not> str_contains q (name chat)"
  shows "find_chat_by_name mk cl typed q = Inl IndexError"
proof -
  from assms have "found_chats cl q = []"
    by (simp add: found_chats_def)
  then show ?thesis
    by (simp add: find_chat_by_name_def getitem_def)
qed

theorem find_chat_by_name_no_match_witness:
  "list_all (\<lambda>chat. \<not> str_contains ''Nowhere'' (name chat)) (list_all_chats example_client) \<and>
   find_chat_by_name (\<lambda>line. True) example_client (Some 1) ''Nowhere'' = Inl IndexError"
proof -
  have h: "\<forall>chat \<in> set (list_all_chats example_client). \<not> str_contains ''Nowhere'' (name chat)"
    by (simp add: list_all_chats_def example_client_def news_chat_def)
  from h have "list_all (\<lambda>chat. \<not> str_contains ''Nowhere'' (name chat))
                 (list_all_chats example_client)"
    by (simp add: list_all_iff)
  then show ?thesis
    using find_chat_by_name_no_match [OF h, where typed = "Some 1" and mk = "\<lambda>line. True"] by (rule conjI)
qed

text \<open>
  C1, as stated, fails: with no match the failure is an IndexError, not an error that says
  that no chat was found.
\<close>

theorem find_chat_by_name_no_match_counterexample:
  "found_chats example_client ''Nowhere'' = [] \<and>
   find_chat_by_name (\<lambda>line. True) example_client None ''Nowhere'' = Inl IndexError"
  by (simp add: find_chat_by_name_def found_chats_def list_all_chats_def example_client_def
      news_chat_def getitem_def)

text \<open>
  When every preview can be made, the lines are printed, and a typed number between 1 and
  the number of candidates selects the candidate at that position.
\<close>

lemma print_choices_ok:
  assumes "\<forall>chat \<in> set chats. \<forall>m ms. get_messages_by_chat_id cl (dialog_id chat) 1 = m # ms
              \<longrightarrow> (\<exists>s. msg_text m = PStr s)"
    and "\<And>line. mk line"
  shows "\<exists>ls. print_choices mk cl i chats = Inr ls"
  using assms(1)
proof (induction chats arbitrary: i)
  case Nil
  show ?case by simp
next
  case (Cons chat chats)
  from Cons.prems obtain t where
    t: "last_message_text (get_messages_by_chat_id cl (dialog_id chat) 1) = Inr t"
    by (cases "get_messages_by_chat_id cl (dialog_id chat) 1")
      (auto simp: last_message_text_def split: pyval.splits)
  from Cons have "\<exists>ls. print_choices mk cl (Suc i) chats = Inr ls"
    by simp
  then obtain ls where ls: "print_choices mk cl (Suc i) chats = Inr ls"
    by blast
  have e: "mk = (\<lambda>line. True)"
    using assms(2) by auto
  show ?case
    using ls unfolding e by (simp add: t Let_def)
qed

lemma find_chat_by_name_choice:
  assumes "length (found_chats cl q) > 1"
    and "print_choices mk cl 0 (found_chats cl q) = Inr ls"
    and "1 \<le> k" and "k \<le> int (length (found_chats cl q))"
  shows "find_chat_by_name mk cl (Some k) q = Inr (found_chats cl q ! nat (k - 1))"
  using assms by (simp add: find_chat_by_name_def getitem_def)

lemma find_chat_by_name_single:
  assumes "found_chats cl q = [chat]"
  shows "find_chat_by_name mk cl typed q = Inr chat"
  using assms by (simp add: find_chat_by_name_def getitem_def)

text \<open>
  C8 at the failing input: two dialogs match, the latest message of the first is a service
  message, the selection is 1. The preview of the first candidate raises TypeError before
  the selection is read, and no chat is returned.
\<close>

theorem ambiguous_preview_raises:
  "length (found_chats ambiguous_client ''News'') = 2 \<and>
   find_chat_by_name (\<lambda>line. True) ambiguous_client (Some 1) ''News'' = Inl TypeError"
  by (simp add: find_chat_by_name_def found_chats_def list_all_chats_def ambiguous_client_def
      news_chat_def get_messages_by_chat_id_def last_message_text_def service_message_def
      post_def)

section \<open>A sender of another shape\<close>

text \<open>
  C2 at the failing input: a message whose sender is neither a person nor a channel does
  not leave the loop by \<^verbatim>\<open>continue\<close>. As the first message it finds
  \<open>sender_type\<close> unbound and the run ends with UnboundLocalError; after a message of a
  channel it ends with AttributeError when the sender has no \<^verbatim>\<open>username\<close>, and
  when it has one the message is exported under the type and name of the channel.
\<close>

theorem other_sender_not_excluded:
  "export_history news_chat 10 [anonymous_message] = Inl UnboundLocalError \<and>
   main (\<lambda>line. True) example_args anonymous_client None = Inl AttributeError \<and>
   export_history news_chat 10
     [post 10 (2021, 1, 2, 18, 5, 59) newsco (PStr ''first'') PNone, foreign_message]
     = Inr [example_record 10 ''2021-01-02 18:05:59'' ''text'' ''channel'' ''NewsCo'' ''newsco'' ''first'',
            example_record 21 ''2021-03-02 07:00:00'' ''text'' ''channel'' ''NewsCo'' ''guest'' ''hi'']"
proof -
  have c: "find_chat_by_name (\<lambda>line. True) anonymous_client None (chat_name example_args) = Inr news_chat"
  proof -
    have "get_dialogs anonymous_client = get_dialogs example_client"
      and "get_messages anonymous_client = get_messages example_client"
      by (simp_all add: anonymous_client_def)
    then have "find_chat_by_name (\<lambda>line. True) anonymous_client None (chat_name example_args) =
               find_chat_by_name (\<lambda>line. True) example_client None (chat_name example_args)"
      by (rule find_chat_by_name_cong)
    with example_chat show ?thesis by simp
  qed
  have f: "get_channel_history example_args anonymous_client (dialog_id news_chat) =
             Inr [post 10 (2021, 1, 2, 18, 5, 59) newsco (PStr ''first'') PNone,
                  anonymous_message,
                  post 14 (2021, 3, 5, 0, 0, 0) newsco (PStr ''late'') PNone]"
    by (simp add: get_channel_history_def anonymous_client_def example_args_def)
  have "export_history news_chat (limit example_args)
          [post 10 (2021, 1, 2, 18, 5, 59) newsco (PStr ''first'') PNone,
           anonymous_message,
           post 14 (2021, 3, 5, 0, 0, 0) newsco (PStr ''late'') PNone] = Inl AttributeError"
    by (simp add: export_history_def slice_to_def anonymous_message_def example_args_def
        post_def newsco_def initial_vars_def loop_body_def message_type_of_def
        formatted_message_def json_dumps_ok_def pad2_def pad4_def digit_def news_chat_def)
  then have "main (\<lambda>line. True) example_args anonymous_client None = Inl AttributeError"
    by (simp add: main_export [OF c f])
  moreover have "export_history news_chat 10 [anonymous_message] = Inl UnboundLocalError"
    by (simp add: export_history_def slice_to_def anonymous_message_def post_def
        initial_vars_def loop_body_def)
  moreover have "export_history news_chat 10
     [post 10 (2021, 1, 2, 18, 5, 59) newsco (PStr ''first'') PNone, foreign_message]
     = Inr [example_record 10 ''2021-01-02 18:05:59'' ''text'' ''channel'' ''NewsCo'' ''newsco'' ''first'',
            example_record 21 ''2021-03-02 07:00:00'' ''text'' ''channel'' ''NewsCo'' ''guest'' ''hi'']"
    by (simp add: export_history_def slice_to_def foreign_message_def
        post_def newsco_def initial_vars_def loop_body_def message_type_of_def
        formatted_message_def json_dumps_ok_def pad2_def pad4_def digit_def news_chat_def
        example_record_def)
  ultimately show ?thesis by simp
qed

end
